theory Spec2Isabelle
  imports Main "HOL-Library.AList"
begin

section \<open>Strings\<close>

text \<open>
  Method names, header names and media types are ASCII tokens; strings are byte strings
  and case conversion touches the letters a-z / A-Z only.
\<close>

definition toUpperCase_char :: "char \<Rightarrow> char" where
  "toUpperCase_char c =
     (case map_of (zip ''abcdefghijklmnopqrstuvwxyz'' ''ABCDEFGHIJKLMNOPQRSTUVWXYZ'') c of
        Some u \<Rightarrow> u
      | None \<Rightarrow> c)"

definition toLowerCase_char :: "char \<Rightarrow> char" where
  "toLowerCase_char c =
     (case map_of (zip ''ABCDEFGHIJKLMNOPQRSTUVWXYZ'' ''abcdefghijklmnopqrstuvwxyz'') c of
        Some l \<Rightarrow> l
      | None \<Rightarrow> c)"

definition toUpperCase :: "string \<Rightarrow> string" where
  "toUpperCase s = map toUpperCase_char s"

definition toLowerCase :: "string \<Rightarrow> string" where
  "toLowerCase s = map toLowerCase_char s"

section \<open>JavaScript values\<close>

text \<open>
  The values a request body can be. An object carries the name of its constructor
  (\<open>value.constructor.name\<close>, \<open>None\<close> when \<open>value.constructor\<close> is missing) and
  the properties a lookup finds on it. Numbers are integers.
\<close>

datatype js_value =
    JUndefined
  | JNull
  | JBoolean bool
  | JNumber int
  | JString string
  | JBigInt int
  | JSymbol
  | JFunction
  | JArray "js_value list"
  | JObject "string option" "(string \<times> js_value) list"

record js_error =
  name :: string
  message :: string
  code :: "nat option"

definition TypeError :: "string \<Rightarrow> js_error" where
  "TypeError m = \<lparr>name = ''TypeError'', message = m, code = None\<rparr>"

fun typeof :: "js_value \<Rightarrow> string" where
  "typeof JUndefined = ''undefined''"
| "typeof JNull = ''object''"
| "typeof (JBoolean b) = ''boolean''"
| "typeof (JNumber n) = ''number''"
| "typeof (JString s) = ''string''"
| "typeof (JBigInt n) = ''bigint''"
| "typeof JSymbol = ''symbol''"
| "typeof JFunction = ''function''"
| "typeof (JArray xs) = ''object''"
| "typeof (JObject c ps) = ''object''"

fun truthy :: "js_value \<Rightarrow> bool" where
  "truthy JUndefined = False"
| "truthy JNull = False"
| "truthy (JBoolean b) = b"
| "truthy (JNumber n) = (n \<noteq> 0)"
| "truthy (JString s) = (s \<noteq> [])"
| "truthy (JBigInt n) = (n \<noteq> 0)"
| "truthy JSymbol = True"
| "truthy JFunction = True"
| "truthy (JArray xs) = True"
| "truthy (JObject c ps) = True"

fun isArray :: "js_value \<Rightarrow> bool" where
  "isArray (JArray xs) = True"
| "isArray v = False"

text \<open>
  Property read \<open>value.key\<close>: a TypeError on \<open>undefined\<close> and \<open>null\<close>, the property
  or \<open>undefined\<close> on an object. Primitives and arrays are never read by the code below
  before a type test has returned; they yield \<open>undefined\<close>.
\<close>

fun getProp :: "js_value \<Rightarrow> string \<Rightarrow> js_error + js_value" where
  "getProp JUndefined k = Inl (TypeError (''Cannot read properties of undefined (reading '' @ k @ '')''))"
| "getProp JNull k = Inl (TypeError (''Cannot read properties of null (reading '' @ k @ '')''))"
| "getProp (JObject c ps) k = (case map_of ps k of Some v \<Rightarrow> Inr v | None \<Rightarrow> Inr JUndefined)"
| "getProp v k = Inr JUndefined"


fun constructorName :: "js_value \<Rightarrow> string option" where
  "constructorName (JObject c ps) = c"
| "constructorName v = None"

section \<open>utils.ts\<close>



text \<open>
  \<open>isJSONSerializable\<close>, test by test. The fourth disjunct of the primitive test compares
  the type name \<open>t\<close>, a string, with \<open>null\<close>; a string is never \<open>null\<close>. A \<open>null\<close>
  value has type name \<open>object\<close>, is not an array, and reaches the read of \<open>value.buffer\<close>.
\<close>

definition isJSONSerializable :: "js_value \<Rightarrow> js_error + bool" where
  "isJSONSerializable value =
     (if value = JUndefined then Inr False
      else
        let t = typeof value in
        if t = ''string'' \<or> t = ''number'' \<or> t = ''boolean'' \<or> JString t = JNull then Inr True
        else if t \<noteq> ''object'' then Inr False
        else if isArray value then Inr True
        else
          (case getProp value ''buffer'' of
             Inl e \<Rightarrow> Inl e
           | Inr b \<Rightarrow>
               if truthy b then Inr False
               else
                 (case getProp value ''toJSON'' of
                    Inl e \<Rightarrow> Inl e
                  | Inr f \<Rightarrow>
                      Inr (constructorName value = Some ''Object'' \<or> typeof f = ''function''))))"

section \<open>Collaborators: header container, requests, responses, cancellation\<close>

text \<open>
  The header container of the platform, by its contract: field names are case-insensitive
  (stored in lower case), \<open>set\<close> replaces the value of a field, \<open>append\<close> joins a second
  value for the same field with a comma, and the constructor appends every entry of its
  argument to an empty container. Validation of names and values is left out.
\<close>

type_synonym Headers = "(string \<times> string) list"

definition headers_get :: "Headers \<Rightarrow> string \<Rightarrow> string option" where
  "headers_get h n = map_of h (toLowerCase n)"


definition headers_set :: "Headers \<Rightarrow> string \<Rightarrow> string \<Rightarrow> Headers" where
  "headers_set h n v = AList.update (toLowerCase n) v h"

definition headers_append :: "Headers \<Rightarrow> string \<Rightarrow> string \<Rightarrow> Headers" where
  "headers_append h n v =
     (case map_of h (toLowerCase n) of
        None \<Rightarrow> AList.update (toLowerCase n) v h
      | Some old \<Rightarrow> AList.update (toLowerCase n) (old @ '', '' @ v) h)"

text \<open>
  What a caller may pass as headers: an array of pairs, a plain object, or a container.
\<close>

datatype HeadersInit =
    InitArray "(string \<times> string) list"
  | InitObject "(string \<times> string) list"
  | InitHeaders Headers

fun init_entries :: "HeadersInit \<Rightarrow> (string \<times> string) list" where
  "init_entries (InitArray ps) = ps"
| "init_entries (InitObject ps) = ps"
| "init_entries (InitHeaders h) = h"

definition new_Headers :: "HeadersInit option \<Rightarrow> Headers" where
  "new_Headers init =
     (case init of
        None \<Rightarrow> []
      | Some i \<Rightarrow> foldl (\<lambda>h (k, v). headers_append h k v) [] (init_entries i))"

record request_object =
  request_url :: string
  request_method :: string
  request_headers :: Headers

datatype FetchRequest = RequestString string | RequestObject request_object

record raw_response =
  status :: nat
  statusText :: string
  response_headers :: Headers
  response_body :: js_value
  bodyInit :: js_value
  text_result :: string
  blob_result :: js_value
  arrayBuffer_result :: js_value

text \<open>\<open>FetchResponse\<close>: the response with its decoded-data slot \<open>_data\<close>.\<close>

record FetchResponse = raw_response +
  data :: "js_value option"

definition wrap_response :: "raw_response \<Rightarrow> FetchResponse" where
  "wrap_response r = raw_response.extend r (FetchResponse.fields None)"

text \<open>A cancellation token: aborted once it carries a reason.\<close>

datatype AbortSignal = Signal (abort_reason: "js_error option")

section \<open>types.ts\<close>

datatype ResponseType = Json | Text | Blob | ArrayBuffer | Stream

datatype retry_setting = RetryFalse | RetryNumber int

text \<open>
  What a \<open>retryDelay\<close> callback can read of the failed context: the request, the retry
  setting, the response and the error.
\<close>

record context_view =
  view_request :: FetchRequest
  view_retry :: "retry_setting option"
  view_response :: "FetchResponse option"
  view_error :: "js_error option"

datatype retry_delay = DelayNumber int | DelayFunction "context_view \<Rightarrow> int"

text \<open>
  \<open>FetchOptions\<close>: every field is optional, \<open>None\<close> is a field that is not set. The
  hook slots are left out: the model covers calls whose hook slots are unset.
\<close>

record FetchOptions =
  "method" :: "string option"
  baseURL :: "string option"
  body :: "js_value option"
  headers :: "HeadersInit option"
  query :: "(string \<times> js_value) list option"
  params :: "(string \<times> js_value) list option"
  responseType :: "ResponseType option"
  parseResponse :: "(string \<Rightarrow> js_value) option"
  ignoreResponseError :: "bool option"
  timeout :: "int option"
  retry :: "retry_setting option"
  retryDelay :: "retry_delay option"
  retryStatusCodes :: "nat list option"
  signal :: "AbortSignal option"
  duplex :: "string option"

definition no_options :: FetchOptions where
  "no_options =
     \<lparr>method = None, baseURL = None, body = None, headers = None, query = None,
      params = None, responseType = None, parseResponse = None,
      ignoreResponseError = None, timeout = None, retry = None, retryDelay = None,
      retryStatusCodes = None, signal = None, duplex = None\<rparr>"

record FetchContext =
  request :: FetchRequest
  options :: FetchOptions
  response :: "FetchResponse option"
  error :: "js_error option"

text \<open>
  Object spread \<open>{...a, ...b}\<close>: a field that \<open>b\<close> sets wins, any other field is
  \<open>a\<close>'s. On a whole option set this is field by field.
\<close>

definition spread_field :: "'a option \<Rightarrow> 'a option \<Rightarrow> 'a option" where
  "spread_field a b = (case b of Some v \<Rightarrow> Some v | None \<Rightarrow> a)"

definition spread_options :: "FetchOptions \<Rightarrow> FetchOptions \<Rightarrow> FetchOptions" where
  "spread_options a b =
     \<lparr>method = spread_field (method a) (method b),
      baseURL = spread_field (baseURL a) (baseURL b),
      body = spread_field (body a) (body b),
      headers = spread_field (headers a) (headers b),
      query = spread_field (query a) (query b),
      params = spread_field (params a) (params b),
      responseType = spread_field (responseType a) (responseType b),
      parseResponse = spread_field (parseResponse a) (parseResponse b),
      ignoreResponseError = spread_field (ignoreResponseError a) (ignoreResponseError b),
      timeout = spread_field (timeout a) (timeout b),
      retry = spread_field (retry a) (retry b),
      retryDelay = spread_field (retryDelay a) (retryDelay b),
      retryStatusCodes = spread_field (retryStatusCodes a) (retryStatusCodes b),
      signal = spread_field (signal a) (signal b),
      duplex = spread_field (duplex a) (duplex b)\<rparr>"

text \<open>Spread of an option set that may be \<open>undefined\<close>: \<open>undefined\<close> adds nothing.\<close>

definition spread_opt :: "FetchOptions \<Rightarrow> FetchOptions option \<Rightarrow> FetchOptions" where
  "spread_opt a b = (case b of None \<Rightarrow> a | Some o' \<Rightarrow> spread_options a o')"

text \<open>Spread of plain objects (query parameters): later keys override earlier ones.\<close>

definition spread_object ::
  "(string \<times> js_value) list \<Rightarrow> (string \<times> js_value) list option \<Rightarrow> (string \<times> js_value) list"
where
  "spread_object a b = (case b of None \<Rightarrow> a | Some ps \<Rightarrow> AList.merge a ps)"

section \<open>utils.ts: option resolution\<close>

text \<open>
  \<open>mergeHeaders(input, defaults, Headers)\<close>. Without defaults the result is a container
  built from the input. With defaults, the entries of the input are \<open>set\<close> one by one on a
  container built from the defaults; an input that is a plain object is first turned into
  a container, an array or a container is iterated as it is.
\<close>

fun iterate_init :: "HeadersInit \<Rightarrow> (string \<times> string) list" where
  "iterate_init (InitArray ps) = ps"
| "iterate_init (InitHeaders h) = h"
| "iterate_init (InitObject ps) = new_Headers (Some (InitObject ps))"

definition mergeHeaders :: "HeadersInit option \<Rightarrow> HeadersInit option \<Rightarrow> Headers" where
  "mergeHeaders input defaults' =
     (case defaults' of
        None \<Rightarrow> new_Headers input
      | Some d \<Rightarrow>
          (let hs = new_Headers (Some d) in
           case input of
             None \<Rightarrow> hs
           | Some i \<Rightarrow> foldl (\<lambda>h (k, v). headers_set h k v) hs (iterate_init i)))"

text \<open>\<open>(request as Request)?.headers\<close>: a string has none.\<close>

fun headers_of_request :: "FetchRequest \<Rightarrow> HeadersInit option" where
  "headers_of_request (RequestString s) = None"
| "headers_of_request (RequestObject r) = Some (InitHeaders (request_headers r))"

definition opt_field :: "FetchOptions option \<Rightarrow> (FetchOptions \<Rightarrow> 'a option) \<Rightarrow> 'a option" where
  "opt_field opts f = (case opts of None \<Rightarrow> None | Some o' \<Rightarrow> f o')"

text \<open>The merged headers: the first statement of \<open>resolveFetchOptions\<close>.\<close>

definition merged_headers ::
  "FetchRequest \<Rightarrow> FetchOptions option \<Rightarrow> FetchOptions option \<Rightarrow> Headers"
where
  "merged_headers req input defaults' =
     mergeHeaders
       (case opt_field input headers of
          Some h \<Rightarrow> Some h
        | None \<Rightarrow> headers_of_request req)
       (opt_field defaults' headers)"

definition resolveFetchOptions ::
  "FetchRequest \<Rightarrow> FetchOptions option \<Rightarrow> FetchOptions option \<Rightarrow> FetchOptions"
where
  "resolveFetchOptions req input defaults' =
     (let hs = merged_headers req input defaults';
          q = (if opt_field defaults' query \<noteq> None \<or> opt_field defaults' params \<noteq> None
                  \<or> opt_field input params \<noteq> None \<or> opt_field input query \<noteq> None
               then Some (spread_object (spread_object (spread_object (spread_object []
                            (opt_field defaults' params)) (opt_field defaults' query))
                            (opt_field input params)) (opt_field input query))
               else None)
      in (spread_opt (spread_opt no_options defaults') input)
           \<lparr>query := q, params := q, headers := Some (InitHeaders hs)\<rparr>)"

section \<open>utils.ts: response type detection\<close>

definition textTypes :: "string set" where
  "textTypes = {''image/svg'', ''application/xml'', ''application/xhtml'', ''application/html''}"

text \<open>
  The character class of \<open>JSON_RE\<close>: word characters and the listed punctuation.
\<close>

definition json_prefix_char :: "char \<Rightarrow> bool" where
  "json_prefix_char c =
     (c \<in> set ''abcdefghijklmnopqrstuvwxyzABCDEFGHIJKLMNOPQRSTUVWXYZ0123456789_''
      \<or> c \<in> set [CHR ''!'', CHR ''#'', CHR ''$'', CHR ''%'', CHR ''&'', CHR ''*'', CHR ''.'',
                   CHR ''^'', CHR 0x60, CHR ''~'', CHR ''-''])"

text \<open>
  \<open>JSON_RE.test(s)\<close>, case-insensitive: \<open>application/\<close>, then optionally class
  characters and a plus sign, then \<open>json\<close>, then optionally a semicolon and at least one
  character other than a line terminator, up to the end.
\<close>

definition JSON_RE_test :: "string \<Rightarrow> bool" where
  "JSON_RE_test s =
     (let l = toLowerCase s;
          r = drop 12 l;
          main = takeWhile (\<lambda>c. c \<noteq> CHR '';'') r;
          rest = dropWhile (\<lambda>c. c \<noteq> CHR '';'') r;
          n = length main
      in take 12 l = ''application/''
         \<and> (main = ''json''
              \<or> (5 \<le> n \<and> drop (n - 5) main = ''+json''
                  \<and> list_all json_prefix_char (take (n - 5) main)))
         \<and> (rest = []
              \<or> (2 \<le> length rest
                  \<and> list_all (\<lambda>c. c \<noteq> CHR 0x0A \<and> c \<noteq> CHR 0x0D) (tl rest))))"

definition detectResponseType :: "string \<Rightarrow> ResponseType" where
  "detectResponseType contentType' =
     (if contentType' = [] then Json
      else
        let contentType = takeWhile (\<lambda>c. c \<noteq> CHR '';'') contentType' in
        if JSON_RE_test contentType then Json
        else if contentType \<in> textTypes \<or> take 5 contentType = ''text/'' then Text
        else Blob)"

section \<open>error.ts\<close>

text \<open>\<open>String(n)\<close> of a status code: its decimal digits.\<close>

fun string_of_nat :: "nat \<Rightarrow> string" where
  "string_of_nat n =
     (if n < 10 then [''0123456789'' ! n]
      else string_of_nat (n div 10) @ [''0123456789'' ! (n mod 10)])"

declare string_of_nat.simps [simp del]

text \<open>
  \<open>JSON.stringify\<close> of a string: the string in double quotes, with the quote, the
  backslash and the control characters escaped.
\<close>

definition hex_digit :: "nat \<Rightarrow> char" where
  "hex_digit k = ''0123456789abcdef'' ! k"

definition json_escape_char :: "char \<Rightarrow> string" where
  "json_escape_char c =
     (if c = CHR 0x22 then [CHR 0x5C, CHR 0x22]
      else if c = CHR 0x5C then [CHR 0x5C, CHR 0x5C]
      else if c = CHR 0x08 then [CHR 0x5C, CHR ''b'']
      else if c = CHR 0x09 then [CHR 0x5C, CHR ''t'']
      else if c = CHR 0x0A then [CHR 0x5C, CHR ''n'']
      else if c = CHR 0x0C then [CHR 0x5C, CHR ''f'']
      else if c = CHR 0x0D then [CHR 0x5C, CHR ''r'']
      else if (of_char c :: nat) < 32
        then [CHR 0x5C, CHR ''u'', CHR ''0'', CHR ''0'',
              hex_digit ((of_char c :: nat) div 16), hex_digit ((of_char c :: nat) mod 16)]
      else [c])"

definition JSON_stringify_string :: "string \<Rightarrow> string" where
  "JSON_stringify_string s = [CHR 0x22] @ concat (map json_escape_char s) @ [CHR 0x22]"

text \<open>\<open>Error.prototype.toString\<close>.\<close>

definition error_toString :: "js_error \<Rightarrow> string" where
  "error_toString e =
     (if name e = [] then message e
      else if message e = [] then name e
      else name e @ '': '' @ message e)"

text \<open>
  \<open>FetchError\<close>: the composed message, the cause, and the context its accessors
  (\<open>request\<close>, \<open>options\<close>, \<open>response\<close>, \<open>data\<close>, \<open>status\<close>, ...) read through.
\<close>

record FetchError =
  fe_message :: string
  cause :: "js_error option"
  fe_context :: FetchContext

text \<open>The parts of the message, as \<open>createFetchError\<close> computes them.\<close>

definition errorMessage_of :: "FetchContext \<Rightarrow> string" where
  "errorMessage_of ctx =
     (case error ctx of
        None \<Rightarrow> []
      | Some e \<Rightarrow> if message e \<noteq> [] then message e else error_toString e)"

definition method_of :: "FetchContext \<Rightarrow> string" where
  "method_of ctx =
     (let optionMethod =
            (case method (options ctx) of
               Some m \<Rightarrow> if m \<noteq> [] then m else ''GET''
             | None \<Rightarrow> ''GET'')
      in case request ctx of
           RequestObject r \<Rightarrow> if request_method r \<noteq> [] then request_method r else optionMethod
         | RequestString s \<Rightarrow> optionMethod)"

definition url_of :: "FetchContext \<Rightarrow> string" where
  "url_of ctx =
     (case request ctx of
        RequestObject r \<Rightarrow> if request_url r \<noteq> [] then request_url r else ''[object Request]''
      | RequestString s \<Rightarrow> if s \<noteq> [] then s else ''/'')"

definition statusStr_of :: "FetchContext \<Rightarrow> string" where
  "statusStr_of ctx =
     (case response ctx of
        Some r \<Rightarrow> string_of_nat (status r) @ '' '' @ statusText r
      | None \<Rightarrow> ''<no response>'')"

definition createFetchError :: "FetchContext \<Rightarrow> FetchError" where
  "createFetchError ctx =
     (let errorMessage = errorMessage_of ctx;
          requestStr = ''['' @ method_of ctx @ ''] '' @ JSON_stringify_string (url_of ctx);
          statusStr = statusStr_of ctx;
          message' = requestStr @ '': '' @ statusStr
                       @ (if errorMessage \<noteq> [] then '' '' @ errorMessage else [])
      in \<lparr>fe_message = message', cause = error ctx, fe_context = ctx\<rparr>)"

section \<open>fetch.ts\<close>

text \<open>Truthiness of optional string, number and boolean fields.\<close>

definition truthy_string :: "string option \<Rightarrow> bool" where
  "truthy_string s = (case s of None \<Rightarrow> False | Some x \<Rightarrow> x \<noteq> [])"

definition truthy_number :: "int option \<Rightarrow> bool" where
  "truthy_number n = (case n of None \<Rightarrow> False | Some x \<Rightarrow> x \<noteq> 0)"



definition nullBodyResponses :: "nat set" where
  "nullBodyResponses = {101, 204, 205, 304}"

text \<open>
  The transport: for a request and its options it answers with a response, throws, or
  does not settle by itself. By its contract it rejects with the reason of the cancellation
  token it was given, at once when the token is already aborted and otherwise when the
  token aborts while the call is in flight.
\<close>

datatype transport_outcome = Responds raw_response | Throws js_error | NoResponse

type_synonym Fetch = "FetchRequest \<Rightarrow> FetchOptions \<Rightarrow> transport_outcome"

record CreateFetchOptions =
  fetch :: "Fetch option"
  defaults :: "FetchOptions option"

text \<open>
  What the module imports or finds in the global scope: the global \<open>fetch\<close>, \<open>destr\<close>,
  \<open>JSON.stringify\<close>, and \<open>withBase\<close> and \<open>withQuery\<close> of \<open>ufo\<close>.
\<close>

record platform =
  global_fetch :: Fetch
  destr :: "string \<Rightarrow> js_value"
  JSON_stringify :: "js_value \<Rightarrow> js_error + string option"
  withBase :: "string \<Rightarrow> string \<Rightarrow> string"
  withQuery :: "string \<Rightarrow> (string \<times> js_value) list \<Rightarrow> string"


subsection \<open>onError\<close>








subsection \<open>The steps of one attempt\<close>

definition normalize_method :: "FetchOptions \<Rightarrow> FetchOptions" where
  "normalize_method opts =
     (case method opts of
        Some m \<Rightarrow> if m \<noteq> [] then opts\<lparr>method := Some (toUpperCase m)\<rparr> else opts
      | None \<Rightarrow> opts)"

definition assemble_url :: "platform \<Rightarrow> FetchContext \<Rightarrow> FetchContext" where
  "assemble_url pf ctx =
     (case request ctx of
        RequestObject r \<Rightarrow> ctx
      | RequestString s \<Rightarrow>
          (let s1 = (if truthy_string (baseURL (options ctx))
                     then withBase pf s (the (baseURL (options ctx))) else s);
               s2 = (case query (options ctx) of Some q \<Rightarrow> withQuery pf s1 q | None \<Rightarrow> s1)
           in ctx\<lparr>request := RequestString s2,
                   options := (options ctx)\<lparr>query := None, params := None\<rparr>\<rparr>))"






text \<open>
  Timeout arming: with no token in the options and a truthy timeout, a fresh token is
  installed and a timer is set; the result carries the delay of the timer, if one is set.
\<close>

definition arm_timeout :: "FetchOptions \<Rightarrow> FetchOptions \<times> int option" where
  "arm_timeout opts =
     (if signal opts = None \<and> truthy_number (timeout opts)
      then (opts\<lparr>signal := Some (Signal None)\<rparr>, timeout opts)
      else (opts, None))"

text \<open>
  What the pipeline does that the outside can see: it invokes the transport, the armed
  timer fires after its delay, it sleeps for a retry delay, it writes the decoded-data slot.
\<close>

datatype event = Fetched | TimedOut int | Slept int | DataSet js_value



definition hasBody :: "FetchOptions \<Rightarrow> raw_response \<Rightarrow> bool" where
  "hasBody opts r =
     ((truthy (response_body r) \<or> truthy (bodyInit r))
      \<and> status r \<notin> nullBodyResponses
      \<and> method opts \<noteq> Some ''HEAD'')"

definition responseType_of :: "FetchOptions \<Rightarrow> raw_response \<Rightarrow> ResponseType" where
  "responseType_of opts r =
     (case (if parseResponse opts \<noteq> None then Some Json else responseType opts) of
        Some t \<Rightarrow> t
      | None \<Rightarrow>
          detectResponseType
            (case headers_get (response_headers r) ''content-type'' of
               Some c \<Rightarrow> c
             | None \<Rightarrow> []))"

definition decode_response ::
  "platform \<Rightarrow> FetchOptions \<Rightarrow> raw_response \<Rightarrow> event list \<times> FetchResponse"
where
  "decode_response pf opts r =
     (if hasBody opts r then
        (let v = (case responseType_of opts r of
                    Json \<Rightarrow>
                      (case parseResponse opts of Some parse \<Rightarrow> parse | None \<Rightarrow> destr pf)
                        (text_result r)
                  | Stream \<Rightarrow> (if truthy (response_body r) then response_body r else bodyInit r)
                  | Text \<Rightarrow> JString (text_result r)
                  | Blob \<Rightarrow> blob_result r
                  | ArrayBuffer \<Rightarrow> arrayBuffer_result r)
         in ([DataSet v], (wrap_response r)\<lparr>data := Some v\<rparr>))
      else ([], wrap_response r))"


text \<open>
  The context of an attempt before the body is prepared: options resolved, method in
  upper case, URL assembled.
\<close>

definition build_context ::
  "platform \<Rightarrow> CreateFetchOptions \<Rightarrow> FetchRequest \<Rightarrow> FetchOptions \<Rightarrow> FetchContext"
where
  "build_context pf globalOptions request' options' =
     assemble_url pf
       \<lparr>request = request',
        options = normalize_method
          (resolveFetchOptions request' (Some options') (defaults globalOptions)),
        response = None, error = None\<rparr>"


subsection \<open>The pipeline with its retry edge\<close>
















subsection \<open>Reading the events\<close>

definition transport_calls :: "event list \<Rightarrow> nat" where
  "transport_calls evs = length (filter (\<lambda>e. e = Fetched) evs)"

fun is_DataSet :: "event \<Rightarrow> bool" where
  "is_DataSet (DataSet v) = True"
| "is_DataSet e = False"

definition data_writes :: "event list \<Rightarrow> nat" where
  "data_writes evs = length (filter is_DataSet evs)"


fun event_ms :: "event \<Rightarrow> int" where
  "event_ms (TimedOut t) = max 0 t"
| "event_ms (Slept d) = d"
| "event_ms e = 0"

definition waited_ms :: "event list \<Rightarrow> int" where
  "waited_ms evs = sum_list (map event_ms evs)"

text \<open>The events of the retries after the first attempt: a delay, if positive, then the transport.\<close>

definition retry_events :: "nat \<Rightarrow> int \<Rightarrow> event list" where
  "retry_events k d = concat (replicate k ((if 0 < d then [Slept d] else []) @ [Fetched]))"

section \<open>Example inputs\<close>












text \<open>The context of a POST that was answered with 403 Forbidden.\<close>

definition forbidden_response :: FetchResponse where
  "forbidden_response =
     wrap_response \<lparr>status = 403, statusText = ''Forbidden'', response_headers = [],
       response_body = JNull, bodyInit = JUndefined, text_result = [],
       blob_result = JUndefined, arrayBuffer_result = JUndefined\<rparr>"

definition forbidden_context :: FetchContext where
  "forbidden_context =
     \<lparr>request = RequestString ''http://localhost:3000/403'',
      options = no_options\<lparr>method := Some ''POST''\<rparr>,
      response = Some forbidden_response, error = None\<rparr>"

text \<open>A pre-built request that carries a header, and per-call options with another.\<close>

definition request_with_foo :: FetchRequest where
  "request_with_foo =
     RequestObject \<lparr>request_url = ''http://localhost:3000/echo'', request_method = ''GET'',
                    request_headers = [(''foo'', ''1'')]\<rparr>"

definition options_with_bar :: FetchOptions where
  "options_with_bar = no_options\<lparr>headers := Some (InitObject [(''bar'', ''3'')])\<rparr>"











section \<open>Notions for the proofs about the retry chain\<close>




section \<open>Facts about the steps\<close>


lemma assemble_url_context [simp]:
  "response (assemble_url pf ctx) = response ctx"
  "error (assemble_url pf ctx) = error ctx"
  by (simp_all add: assemble_url_def Let_def split: FetchRequest.splits)

lemma assemble_url_options [simp]:
  "method (options (assemble_url pf ctx)) = method (options ctx)"
  "body (options (assemble_url pf ctx)) = body (options ctx)"
  "headers (options (assemble_url pf ctx)) = headers (options ctx)"
  "timeout (options (assemble_url pf ctx)) = timeout (options ctx)"
  "retryDelay (options (assemble_url pf ctx)) = retryDelay (options ctx)"
  "retryStatusCodes (options (assemble_url pf ctx)) = retryStatusCodes (options ctx)"
  "signal (options (assemble_url pf ctx)) = signal (options ctx)"
  "duplex (options (assemble_url pf ctx)) = duplex (options ctx)"
  "responseType (options (assemble_url pf ctx)) = responseType (options ctx)"
  "parseResponse (options (assemble_url pf ctx)) = parseResponse (options ctx)"
  "ignoreResponseError (options (assemble_url pf ctx)) = ignoreResponseError (options ctx)"
  by (simp_all add: assemble_url_def Let_def split: FetchRequest.splits)

lemma build_context_context [simp]:
  "response (build_context pf g req opts) = None"
  "error (build_context pf g req opts) = None"
  by (simp_all add: build_context_def)








lemma json_escape_plain:
  "c \<noteq> CHR 0x22 \<Longrightarrow> c \<noteq> CHR 0x5C \<Longrightarrow> 32 \<le> (of_char c :: nat) \<Longrightarrow> json_escape_char c = [c]"
  by (auto simp: json_escape_char_def)

lemma JSON_stringify_string_plain:
  assumes "\<forall>c\<in>set s. c \<noteq> CHR 0x22 \<and> c \<noteq> CHR 0x5C \<and> 32 \<le> (of_char c :: nat)"
  shows "JSON_stringify_string s = [CHR 0x22] @ s @ [CHR 0x22]"
proof -
  have "concat (map json_escape_char s) = s"
    using assms by (induction s) (simp_all add: json_escape_plain)
  then show ?thesis by (simp add: JSON_stringify_string_def)
qed

lemma string_of_nat_403: "string_of_nat 403 = ''403''"
  by (simp add: string_of_nat.simps)

lemma map_of_headers_set:
  "map_of (headers_set h k v) x = (if x = toLowerCase k then Some v else map_of h x)"
  by (simp add: headers_set_def update_conv')

lemma foldl_headers_set:
  "map_of (foldl (\<lambda>h (k, v). headers_set h k v) h0 es) x =
     (case map_of (rev (map (\<lambda>(k, v). (toLowerCase k, v)) es)) x of
        Some v \<Rightarrow> Some v
      | None \<Rightarrow> map_of h0 x)"
proof (induction es arbitrary: h0)
  case Nil
  show ?case by simp
next
  case (Cons e es)
  obtain k v where e: "e = (k, v)" by (cases e)
  have "map_of (foldl (\<lambda>h (k, v). headers_set h k v) h0 (e # es)) x
      = map_of (foldl (\<lambda>h (k, v). headers_set h k v) (headers_set h0 k v) es) x"
    by (simp add: e)
  also have "\<dots> = (case map_of (rev (map (\<lambda>(k, v). (toLowerCase k, v)) es)) x of
        Some v \<Rightarrow> Some v
      | None \<Rightarrow> map_of (headers_set h0 k v) x)"
    by (rule Cons.IH)
  also have "\<dots> = (case map_of (rev (map (\<lambda>(k, v). (toLowerCase k, v)) (e # es))) x of
        Some v \<Rightarrow> Some v
      | None \<Rightarrow> map_of h0 x)"
    by (simp add: e map_of_headers_set map_add_def split: option.splits)
  finally show ?case .
qed

lemma headers_get_mergeHeaders:
  "headers_get (mergeHeaders (Some i) (Some d)) n =
     (case map_of (rev (map (\<lambda>(k, v). (toLowerCase k, v)) (iterate_init i))) (toLowerCase n) of
        Some v \<Rightarrow> Some v
      | None \<Rightarrow> headers_get (new_Headers (Some d)) n)"
  unfolding mergeHeaders_def headers_get_def by (simp add: foldl_headers_set)

lemmas headers_defs = merged_headers_def mergeHeaders_def new_Headers_def headers_append_def
  headers_set_def headers_get_def opt_field_def toLowerCase_def toLowerCase_char_def
  request_with_foo_def options_with_bar_def no_options_def




lemma spread_field_None [simp]: "spread_field None b = b"
  by (simp add: spread_field_def split: option.splits)

lemma no_options_fields [simp]:
  "headers no_options = None" "query no_options = None" "params no_options = None"
  "retry no_options = None" "timeout no_options = None" "method no_options = None"
  "baseURL no_options = None" "body no_options = None" "signal no_options = None"
  "retryDelay no_options = None" "retryStatusCodes no_options = None"
  by (simp_all add: no_options_def)




lemma toLowerCase_content_type [simp]:
  "toLowerCase ''content-type'' = ''content-type''" "toLowerCase ''accept'' = ''accept''"
  by (simp_all add: toLowerCase_def toLowerCase_char_def)



lemma data_wrap_response [simp]:
  "data (wrap_response r) = None" "status (wrap_response r) = status r"
  by (simp_all add: wrap_response_def raw_response.defs FetchResponse.defs)


lemma decode_response_status [simp]: "status (snd (decode_response pf opts r)) = status r"
  by (simp add: decode_response_def Let_def)



lemma data_writes_Fetched [simp]: "data_writes (Fetched # evs) = data_writes evs"
  by (simp add: data_writes_def)

lemma data_writes_Nil [simp]: "data_writes [] = 0"
  by (simp add: data_writes_def)

lemma toUpperCase_Nil_iff [simp]: "toUpperCase m = [] \<longleftrightarrow> m = []"
  by (simp add: toUpperCase_def)


lemma method_arm_timeout [simp]: "method (fst (arm_timeout opts)) = method opts"
  by (simp add: arm_timeout_def)


lemma transport_calls_simps [simp]:
  "transport_calls [] = 0"
  "transport_calls (Fetched # evs) = Suc (transport_calls evs)"
  "transport_calls (TimedOut t # evs) = transport_calls evs"
  "transport_calls (Slept d # evs) = transport_calls evs"
  "transport_calls (DataSet v # evs) = transport_calls evs"
  "transport_calls (evs @ evs') = transport_calls evs + transport_calls evs'"
  by (simp_all add: transport_calls_def)

lemma decode_response_calls [simp]: "transport_calls (fst (decode_response pf opts r)) = 0"
  by (simp add: decode_response_def Let_def)









lemma normalize_method_fields [simp]:
  "body (normalize_method os) = body os"
  "timeout (normalize_method os) = timeout os"
  "signal (normalize_method os) = signal os"
  "retryDelay (normalize_method os) = retryDelay os"
  "retryStatusCodes (normalize_method os) = retryStatusCodes os"
  by (simp_all add: normalize_method_def split: option.splits)



lemma spread_field_Some [simp]: "spread_field a (Some v) = Some v"
  by (simp add: spread_field_def)









lemma cause_createFetchError [simp]: "cause (createFetchError ctx) = error ctx"
  by (simp add: createFetchError_def Let_def)

lemma retry_events_simps [simp]:
  "retry_events 0 d = []"
  "retry_events (Suc k) d = (if 0 < d then [Slept d] else []) @ Fetched # retry_events k d"
  by (simp_all add: retry_events_def)

lemma transport_calls_retry_events [simp]: "transport_calls (retry_events k d) = k"
  by (induction k) simp_all

lemma waited_ms_simps [simp]:
  "waited_ms [] = 0"
  "waited_ms (e # evs) = event_ms e + waited_ms evs"
  "waited_ms (evs @ evs') = waited_ms evs + waited_ms evs'"
  by (simp_all add: waited_ms_def)

lemma waited_ms_retry_events [simp]: "waited_ms (retry_events k d) = int k * max 0 d"
  by (induction k) (simp_all add: algebra_simps max_def)




section \<open>Claims\<close>

subsection \<open>The classifier of JSON-serializable values\<close>

text \<open>
  C10. The classifier is claimed to return a boolean for every value, \<open>null\<close> included,
  and \<open>true\<close> for \<open>null\<close>. On \<open>null\<close> the code returns nothing: the type name of
  \<open>null\<close> is \<open>object\<close>, the comparison of the type name with \<open>null\<close> never holds, and
  the read of \<open>value.buffer\<close> on \<open>null\<close> raises a TypeError.
\<close>

theorem isJSONSerializable_null_raises:
  "isJSONSerializable JNull =
     Inl (TypeError ''Cannot read properties of null (reading buffer)'')"
  by (simp add: isJSONSerializable_def)

subsection \<open>The default retry budget\<close>



subsection \<open>Cancellations that are not retried\<close>



subsection \<open>The message of the normalized error\<close>

text \<open>
  C9, as amended. The message is \<open>[METHOD] "url": status statusText\<close>, followed by a
  space and the text of the cause when that text is not empty; the text of the cause is
  its message, or its string form when the message is empty. METHOD is the descriptor's
  own method, else the option method, else GET; the URL is the descriptor's own URL, else
  its string form, else \<open>/\<close>, quoted as JSON; the status part is \<open><no response>\<close>
  without a response. For a POST to a URL \<open>U\<close> that needs no escaping, answered with
  403 Forbidden and no underlying error, the message is \<open>[POST] "U": 403 Forbidden\<close>.
\<close>

theorem createFetchError_message:
  "fe_message (createFetchError ctx) =
     ''['' @
     (case request ctx of
        RequestObject r \<Rightarrow>
          if request_method r \<noteq> [] then request_method r
          else (case method (options ctx) of
                  Some m \<Rightarrow> if m \<noteq> [] then m else ''GET''
                | None \<Rightarrow> ''GET'')
      | RequestString s \<Rightarrow>
          (case method (options ctx) of
             Some m \<Rightarrow> if m \<noteq> [] then m else ''GET''
           | None \<Rightarrow> ''GET''))
     @ ''] '' @
     JSON_stringify_string
       (case request ctx of
          RequestObject r \<Rightarrow> if request_url r \<noteq> [] then request_url r else ''[object Request]''
        | RequestString s \<Rightarrow> if s \<noteq> [] then s else ''/'')
     @ '': '' @
     (case response ctx of
        Some r \<Rightarrow> string_of_nat (status r) @ '' '' @ statusText r
      | None \<Rightarrow> ''<no response>'')
     @
     (case error ctx of
        None \<Rightarrow> []
      | Some e \<Rightarrow>
          if message e \<noteq> [] then '' '' @ message e
          else if error_toString e \<noteq> [] then '' '' @ error_toString e
          else [])
   \<and> (request ctx = RequestString U \<and> U \<noteq> []
        \<and> (\<forall>c\<in>set U. c \<noteq> CHR 0x22 \<and> c \<noteq> CHR 0x5C \<and> 32 \<le> (of_char c :: nat))
        \<and> method (options ctx) = Some ''POST''
        \<and> response ctx = Some r \<and> status r = 403 \<and> statusText r = ''Forbidden''
        \<and> error ctx = None
        \<longrightarrow> fe_message (createFetchError ctx)
              = ''[POST] '' @ [CHR 0x22] @ U @ [CHR 0x22] @ '': 403 Forbidden'')"
proof (intro conjI impI)
  show "fe_message (createFetchError ctx) =
     ''['' @
     (case request ctx of
        RequestObject r \<Rightarrow>
          if request_method r \<noteq> [] then request_method r
          else (case method (options ctx) of
                  Some m \<Rightarrow> if m \<noteq> [] then m else ''GET''
                | None \<Rightarrow> ''GET'')
      | RequestString s \<Rightarrow>
          (case method (options ctx) of
             Some m \<Rightarrow> if m \<noteq> [] then m else ''GET''
           | None \<Rightarrow> ''GET''))
     @ ''] '' @
     JSON_stringify_string
       (case request ctx of
          RequestObject r \<Rightarrow> if request_url r \<noteq> [] then request_url r else ''[object Request]''
        | RequestString s \<Rightarrow> if s \<noteq> [] then s else ''/'')
     @ '': '' @
     (case response ctx of
        Some r \<Rightarrow> string_of_nat (status r) @ '' '' @ statusText r
      | None \<Rightarrow> ''<no response>'')
     @
     (case error ctx of
        None \<Rightarrow> []
      | Some e \<Rightarrow>
          if message e \<noteq> [] then '' '' @ message e
          else if error_toString e \<noteq> [] then '' '' @ error_toString e
          else [])"
    by (simp add: createFetchError_def Let_def method_of_def url_of_def statusStr_of_def
        errorMessage_of_def split: FetchRequest.splits option.splits)
next
  assume a: "request ctx = RequestString U \<and> U \<noteq> []
        \<and> (\<forall>c\<in>set U. c \<noteq> CHR 0x22 \<and> c \<noteq> CHR 0x5C \<and> 32 \<le> (of_char c :: nat))
        \<and> method (options ctx) = Some ''POST''
        \<and> response ctx = Some r \<and> status r = 403 \<and> statusText r = ''Forbidden''
        \<and> error ctx = None"
  then have q: "JSON_stringify_string U = [CHR 0x22] @ U @ [CHR 0x22]"
    by (intro JSON_stringify_string_plain) simp
  from a show "fe_message (createFetchError ctx)
              = ''[POST] '' @ [CHR 0x22] @ U @ [CHR 0x22] @ '': 403 Forbidden''"
    by (simp add: createFetchError_def Let_def method_of_def url_of_def statusStr_of_def
        errorMessage_of_def q string_of_nat_403)
qed

theorem createFetchError_message_witness:
  "fe_message (createFetchError forbidden_context)
     = ''[POST] '' @ [CHR 0x22] @ ''http://localhost:3000/403'' @ [CHR 0x22] @ '': 403 Forbidden''"
proof -
  have "request forbidden_context = RequestString ''http://localhost:3000/403''
        \<and> ''http://localhost:3000/403'' \<noteq> []
        \<and> (\<forall>c\<in>set ''http://localhost:3000/403''.
              c \<noteq> CHR 0x22 \<and> c \<noteq> CHR 0x5C \<and> 32 \<le> (of_char c :: nat))
        \<and> method (options forbidden_context) = Some ''POST''
        \<and> response forbidden_context = Some forbidden_response
        \<and> status forbidden_response = 403 \<and> statusText forbidden_response = ''Forbidden''
        \<and> error forbidden_context = None"
    by (simp add: forbidden_context_def forbidden_response_def wrap_response_def no_options_def
        raw_response.defs FetchResponse.defs)
  with createFetchError_message [of forbidden_context "''http://localhost:3000/403''"
      forbidden_response]
  show ?thesis by blast
qed

text \<open>
  The claim as first stated appends something only when a cause message is present. An
  error whose message is empty still contributes its string form.
\<close>

theorem createFetchError_empty_message_counterexample:
  "fe_message (createFetchError
     \<lparr>request = RequestString ''/x'', options = no_options, response = None,
      error = Some \<lparr>name = ''Error'', message = [], code = None\<rparr>\<rparr>)
     = ''[GET] '' @ [CHR 0x22] @ ''/x'' @ [CHR 0x22] @ '': <no response> Error''"
  by (simp add: createFetchError_def Let_def method_of_def url_of_def statusStr_of_def
      errorMessage_of_def error_toString_def no_options_def JSON_stringify_string_def
      json_escape_char_def)

subsection \<open>The resolved headers\<close>

text \<open>
  C5, as amended. The resolved header container merges two layers field by field: the
  default headers, overlaid by the per-call headers when the call gives any, and by the
  headers of the descriptor only when it gives none. Within the overlay the last writer
  of a field name wins over earlier ones and over the default; without default headers
  the container is built from the overlay alone. Once per-call headers are given, the
  headers of the descriptor play no part.
\<close>

theorem resolved_headers_layers:
  "headers (resolveFetchOptions req input dflt) = Some (InitHeaders (merged_headers req input dflt))
   \<and> headers_get (merged_headers req input dflt) n =
       (case (case opt_field input headers of
                Some h \<Rightarrow> Some h
              | None \<Rightarrow> headers_of_request req) of
          None \<Rightarrow> headers_get (new_Headers (opt_field dflt headers)) n
        | Some i \<Rightarrow>
            (case opt_field dflt headers of
               None \<Rightarrow> headers_get (new_Headers (Some i)) n
             | Some d \<Rightarrow>
                 (case map_of (rev (map (\<lambda>(k, v). (toLowerCase k, v)) (iterate_init i)))
                         (toLowerCase n) of
                    Some v \<Rightarrow> Some v
                  | None \<Rightarrow> headers_get (new_Headers (Some d)) n)))
   \<and> (opt_field input headers \<noteq> None \<longrightarrow>
        merged_headers req input dflt = merged_headers req' input dflt)"
proof (intro conjI impI)
  show "headers (resolveFetchOptions req input dflt)
      = Some (InitHeaders (merged_headers req input dflt))"
    by (simp add: resolveFetchOptions_def Let_def)
next
  show "headers_get (merged_headers req input dflt) n =
       (case (case opt_field input headers of
                Some h \<Rightarrow> Some h
              | None \<Rightarrow> headers_of_request req) of
          None \<Rightarrow> headers_get (new_Headers (opt_field dflt headers)) n
        | Some i \<Rightarrow>
            (case opt_field dflt headers of
               None \<Rightarrow> headers_get (new_Headers (Some i)) n
             | Some d \<Rightarrow>
                 (case map_of (rev (map (\<lambda>(k, v). (toLowerCase k, v)) (iterate_init i)))
                         (toLowerCase n) of
                    Some v \<Rightarrow> Some v
                  | None \<Rightarrow> headers_get (new_Headers (Some d)) n)))"
    unfolding merged_headers_def
    by (cases "case opt_field input headers of Some h \<Rightarrow> Some h | None \<Rightarrow> headers_of_request req";
        cases "opt_field dflt headers")
      (simp_all add: headers_get_mergeHeaders, simp_all add: mergeHeaders_def new_Headers_def)
next
  assume "opt_field input headers \<noteq> None"
  then show "merged_headers req input dflt = merged_headers req' input dflt"
    by (auto simp: merged_headers_def)
qed

theorem resolved_headers_layers_witness:
  "headers_get (merged_headers request_with_foo (Some options_with_bar)
      (Some (no_options\<lparr>headers := Some (InitObject [(''X-Default'', ''0''), (''bar'', ''9'')])\<rparr>)))
      ''Bar'' = Some ''3''
   \<and> opt_field (Some options_with_bar) headers \<noteq> None
   \<and> merged_headers request_with_foo (Some options_with_bar) None
       = merged_headers (RequestString ''http://localhost:3000/echo'') (Some options_with_bar) None"
  using resolved_headers_layers [of request_with_foo "Some options_with_bar"
      "Some (no_options\<lparr>headers := Some (InitObject [(''X-Default'', ''0''), (''bar'', ''9'')])\<rparr>)"
      "''Bar''"]
    resolved_headers_layers [of request_with_foo "Some options_with_bar" None "''Bar''"
      "RequestString ''http://localhost:3000/echo''"]
  by (simp add: headers_defs)

text \<open>
  The claim as first stated merges three layers. A field set only on the descriptor is
  gone as soon as the call gives headers of its own.
\<close>

theorem descriptor_headers_dropped_counterexample:
  "headers (resolveFetchOptions request_with_foo (Some options_with_bar) None)
     = Some (InitHeaders [(''bar'', ''3'')])
   \<and> headers_get (merged_headers request_with_foo (Some options_with_bar) None) ''foo'' = None"
  by (simp add: resolveFetchOptions_def Let_def headers_defs)

subsection \<open>Derived instances\<close>




subsection \<open>Body preparation\<close>




subsection \<open>The decoded-data slot\<close>



subsection \<open>The retry decision\<close>



subsection \<open>Timeouts\<close>




end
